theory Spec2Isabelle
  imports Main "HOL-Library.Product_Lexorder"
begin

section \<open>Data model of \<open>base/VersionManager.py\<close>\<close>

text \<open>
  \<open>VersionManager.Status\<close> is the update state shown to the user interface: \<open>NONE\<close> is
  idle, \<open>NEW_VERSION\<close> an update is available, \<open>UPDATING\<close> a download is running,
  \<open>DOWNLOADED\<close> the download is complete.
\<close>

datatype Status = NONE | NEW_VERSION | UPDATING | DOWNLOADED

datatype ToastType = SUCCESS | ERROR

text \<open>
  The events the class publishes through \<open>self.emit\<close>, each with the payload the source
  builds: a toast carries type, message and duration; a progress update carries
  \<open>total_size\<close> and \<open>downloaded_size\<close>.
\<close>

datatype event =
    APP_TOAST_SHOW ToastType string nat
  | APP_UPDATE_CHECK_DONE bool
  | APP_UPDATE_DOWNLOAD_UPDATE int int
  | APP_UPDATE_DOWNLOAD_DONE
  | APP_UPDATE_DOWNLOAD_ERROR

text \<open>
  An exception is kept with the text \<open>str(e)\<close> gives. \<open>Exception\<close> is the class the
  source raises itself; \<open>IndexError\<close> comes from \<open>[-1]\<close> on an empty list, \<open>ValueError\<close>
  from \<open>int()\<close>, with its message; \<open>ExternalError\<close> stands for whatever the network,
  the archive or the file system raises, with its message.
\<close>

datatype exn =
    Exception string
  | IndexError
  | ValueError string
  | ExternalError string

fun str_exn :: "exn \<Rightarrow> string" where
  "str_exn (Exception m) = m"
| "str_exn IndexError = ''list index out of range''"
| "str_exn (ValueError m) = m"
| "str_exn (ExternalError m) = m"

text \<open>The strings of \<open>Localizer.get()\<close> that the class reads; the localizer is a parameter.\<close>

record localizer =
  app_new_version_waiting_restart :: string
  app_new_version_toast :: string
  app_new_version_success :: string
  app_new_version_failure :: string

text \<open>A localizer to run the methods on in examples.\<close>

definition sample_localizer :: localizer where
  "sample_localizer =
     \<lparr> app_new_version_waiting_restart = ''Update applied, please restart'',
       app_new_version_toast = ''New version {VERSION} available'',
       app_new_version_success = ''Download complete'',
       app_new_version_failure = ''Update failed: '' \<rparr>"

text \<open>
  The file system as far as the class touches it: regular files by path, with their
  contents. Directories are not represented.
\<close>

type_synonym fs = "string \<rightharpoonup> string"

text \<open>
  The object's fields (\<open>status\<close>, \<open>version\<close>, \<open>extracting\<close>) together with what the
  methods do to the outside: the events emitted in order, the files, the exceptions
  logged by \<open>self.error\<close>, the URLs opened, and whether the process has sent itself
  \<open>SIGTERM\<close>. \<open>transitions\<close> is a history of \<open>set_status\<close>: each call appends the pair of
  the status it found and the status it wrote. \<open>journal\<close> is the history of the install
  task: the assignments to \<open>extracting\<close>, the file operations it attempts and the
  extraction, each appended when it is reached.
\<close>

datatype action =
    SET_EXTRACTING bool
  | OS_REMOVE string
  | OS_RENAME string string
  | EXTRACT

record state =
  status :: Status
  version :: string
  extracting :: bool
  events :: "event list"
  files :: fs
  logged :: "exn list"
  opened :: "string list"
  terminated :: bool
  transitions :: "(Status \<times> Status) list"
  journal :: "action list"

definition TEMP_PATH :: string where
  "TEMP_PATH = ''./resource/update.temp''"

definition RELEASE_URL :: string where
  "RELEASE_URL = ''https://github.com/neavo/LinguaGacha/releases/latest''"

text \<open>\<open>__init__\<close>: the initial object, on a given file system.\<close>

definition init_state :: "fs \<Rightarrow> state" where
  "init_state f =
     \<lparr> status = NONE, version = ''v0.0.0'', extracting = False, events = [],
       files = f, logged = [], opened = [], terminated = False, transitions = [],
       journal = [] \<rparr>"

definition get_status :: "state \<Rightarrow> Status" where
  "get_status st = status st"

definition set_status :: "Status \<Rightarrow> state \<Rightarrow> state" where
  "set_status s st = st\<lparr> status := s, transitions := transitions st @ [(status st, s)] \<rparr>"

definition get_version :: "state \<Rightarrow> string" where
  "get_version st = version st"

definition set_version :: "string \<Rightarrow> state \<Rightarrow> state" where
  "set_version v st = st\<lparr> version := v \<rparr>"

text \<open>\<open>with self.lock: self.extracting = b\<close>.\<close>

definition set_extracting :: "bool \<Rightarrow> state \<Rightarrow> state" where
  "set_extracting b st =
     st\<lparr> extracting := b, journal := journal st @ [SET_EXTRACTING b] \<rparr>"

definition emit :: "event \<Rightarrow> state \<Rightarrow> state" where
  "emit e st = st\<lparr> events := events st @ [e] \<rparr>"

text \<open>
  \<open>get_platform_info\<close>, from \<open>sys.platform\<close> and \<open>platform.machine()\<close>: everything that
  is not \<open>darwin\<close> is treated as Windows.
\<close>

definition get_platform_info :: "string \<Rightarrow> string \<Rightarrow> string \<times> string" where
  "get_platform_info sys_platform machine =
     (if sys_platform = ''darwin'' then (''macos'', machine) else (''windows'', ''x86_64''))"

section \<open>Strings: the version pattern, \<open>int\<close>, \<open>replace\<close>, \<open>endswith\<close>\<close>

definition is_digit :: "char \<Rightarrow> bool" where
  "is_digit c = (c \<in> set ''0123456789'')"

text \<open>
  \<open>int(s)\<close> on a string of decimal digits. Python's integers are unbounded, but the
  interpreter the class needs (3.11 or later, for \<open>StrEnum\<close> and \<open>Self\<close>) refuses to
  convert a string of more than 4300 digits, leading zeros counted, with a
  \<open>ValueError\<close>. Anything that is not a digit string is a \<open>ValueError\<close> here. (The
  interpreter also accepts a sign, blanks around the number and single underscores
  between digits; neither a group of the version pattern nor a Content-Length header
  that the HTTP library lets through has them.)
\<close>

definition digit_val :: "char \<Rightarrow> nat" where
  "digit_val c = of_char c - 48"

definition nat_of_digits :: "string \<Rightarrow> nat" where
  "nat_of_digits s = foldl (\<lambda>n c. 10 * n + digit_val c) 0 s"

definition is_decimal :: "string \<Rightarrow> bool" where
  "is_decimal s = (s \<noteq> [] \<and> list_all is_digit s)"

text \<open>\<open>sys.int_info.default_max_str_digits\<close>.\<close>

definition max_str_digits :: nat where
  "max_str_digits = 4300"

text \<open>\<open>str(n)\<close> for a natural number.\<close>

fun str_nat :: "nat \<Rightarrow> string" where
  "str_nat n = (if n < 10 then [char_of (48 + n)]
                else str_nat (n div 10) @ [char_of (48 + n mod 10)])"

declare str_nat.simps [simp del]

definition invalid_literal :: "string \<Rightarrow> string" where
  "invalid_literal s = ''invalid literal for int() with base 10: '' @ [CHR 0x27] @ s @ [CHR 0x27]"

definition exceeds_limit :: "string \<Rightarrow> string" where
  "exceeds_limit s =
     ''Exceeds the limit (4300 digits) for integer string conversion: value has ''
     @ str_nat (length s) @ '' digits; use sys.set_int_max_str_digits() to increase the limit''"

definition py_int :: "string \<Rightarrow> exn + int" where
  "py_int s =
     (if \<not> is_decimal s then Inl (ValueError (invalid_literal s))
      else if length s > max_str_digits then Inl (ValueError (exceeds_limit s))
      else Inr (int (nat_of_digits s)))"

text \<open>\<open>\d+\<close>, greedy: the longest run of digits, which must not be empty.\<close>

definition digits1 :: "string \<Rightarrow> (string \<times> string) option" where
  "digits1 s = (let d = takeWhile is_digit s in
                if d = [] then None else Some (d, dropWhile is_digit s))"

text \<open>A literal character of the pattern.\<close>

definition lit :: "char \<Rightarrow> string \<Rightarrow> string option" where
  "lit c s = (case s of [] \<Rightarrow> None | x # r \<Rightarrow> if x = c then Some r else None)"

text \<open>
  One attempt to match \<open>v(\d+)\.(\d+)\.(\d+)$\<close> at the start of \<open>s\<close>: the three groups
  and what is left of \<open>s\<close>. Without the MULTILINE flag \<open>$\<close> holds at the end of the string
  and just before a newline that ends the string. A digit run is followed by a character
  that is no digit, so the greedy run is the only one that can match.
\<close>

definition match_here :: "string \<Rightarrow> ((string \<times> string \<times> string) \<times> string) option" where
  "match_here s =
     (case lit CHR ''v'' s of None \<Rightarrow> None | Some r0 \<Rightarrow>
     (case digits1 r0 of None \<Rightarrow> None | Some (a, r1) \<Rightarrow>
     (case lit CHR ''.'' r1 of None \<Rightarrow> None | Some r2 \<Rightarrow>
     (case digits1 r2 of None \<Rightarrow> None | Some (b, r3) \<Rightarrow>
     (case lit CHR ''.'' r3 of None \<Rightarrow> None | Some r4 \<Rightarrow>
     (case digits1 r4 of None \<Rightarrow> None | Some (c, r5) \<Rightarrow>
      if r5 = [] \<or> r5 = [CHR 0x0A] then Some ((a, b, c), r5) else None))))))"

text \<open>
  \<open>re.findall\<close> with that pattern: the matches from left to right, without overlap. The
  first argument counts the characters still covered by the match found last.
\<close>

fun findall_from :: "nat \<Rightarrow> string \<Rightarrow> (string \<times> string \<times> string) list" where
  "findall_from k [] = []"
| "findall_from (Suc k) (x # t) = findall_from k t"
| "findall_from 0 (x # t) =
     (case match_here (x # t) of
        Some (g, r) \<Rightarrow> g # findall_from (length t - length r) t
      | None \<Rightarrow> findall_from 0 t)"

definition findall_version :: "string \<Rightarrow> (string \<times> string \<times> string) list" where
  "findall_version s = findall_from 0 s"

text \<open>\<open>xs[-1]\<close>: the last element, an \<open>IndexError\<close> on the empty list.\<close>

definition last_item :: "'a list \<Rightarrow> exn + 'a" where
  "last_item xs = (if xs = [] then Inl IndexError else Inr (last xs))"

text \<open>
  \<open>s.replace(old, new)\<close>: every occurrence of \<open>old\<close>, from left to right, without
  overlap; an empty \<open>old\<close> puts \<open>new\<close> before every character and at the end.
\<close>

fun replace_from :: "nat \<Rightarrow> string \<Rightarrow> string \<Rightarrow> string \<Rightarrow> string" where
  "replace_from k old new [] = []"
| "replace_from (Suc k) old new (x # t) = replace_from k old new t"
| "replace_from 0 old new (x # t) =
     (if take (length old) (x # t) = old then new @ replace_from (length old - 1) old new t
      else x # replace_from 0 old new t)"

definition py_replace :: "string \<Rightarrow> string \<Rightarrow> string \<Rightarrow> string" where
  "py_replace s old new =
     (if old = [] then new @ concat (map (\<lambda>x. x # new) s) else replace_from 0 old new s)"

definition endswith :: "string \<Rightarrow> string \<Rightarrow> bool" where
  "endswith s suf = (length suf \<le> length s \<and> drop (length s - length suf) s = suf)"

section \<open>The release feed\<close>

text \<open>
  The JSON document of the release endpoint as the class reads it: \<open>tag_name\<close> and
  \<open>assets\<close>, each asset with \<open>name\<close> and \<open>browser_download_url\<close>. Every one of these is
  read with \<open>.get(key, default)\<close>, so each may be missing.
\<close>

record asset =
  name :: "string option"
  browser_download_url :: "string option"

record release =
  tag_name :: "string option"
  assets :: "asset list option"

text \<open>
  The streamed response of the asset download: the Content-Length header if there is
  one, the chunks \<open>iter_bytes\<close> yields, and the exception that ends the iteration early,
  if any.
\<close>

record stream_response =
  content_length :: "string option"
  iter_bytes :: "string list"
  iter_error :: "exn option"

text \<open>
  What the network answers during one task. \<open>api_get\<close> is \<open>httpx.get(API_URL)\<close>,
  \<open>raise_for_status\<close> and \<open>json()\<close>; \<open>stream_get\<close> is \<open>httpx.stream("GET", url)\<close> and
  \<open>raise_for_status\<close>. Either gives an exception or its result.
\<close>

record network =
  api_get :: "exn + release"
  stream_get :: "string \<Rightarrow> exn + stream_response"

section \<open>Checking for an update\<close>

text \<open>
  The body of the \<open>try\<close> in \<open>app_update_check_start_task\<close>: the state reached and the
  exception raised, if any.
\<close>

definition newer :: "int \<Rightarrow> int \<Rightarrow> int \<Rightarrow> int \<Rightarrow> int \<Rightarrow> int \<Rightarrow> bool" where
  "newer a b c x y z = (a < x \<or> (a = x \<and> b < y) \<or> (a = x \<and> b = y \<and> c < z))"

definition check_try :: "localizer \<Rightarrow> network \<Rightarrow> state \<Rightarrow> state \<times> exn option" where
  "check_try L net st =
     (case api_get net of Inl e \<Rightarrow> (st, Some e) | Inr result \<Rightarrow>
     (case last_item (findall_version (get_version st)) of Inl e \<Rightarrow> (st, Some e) | Inr (a, b, c) \<Rightarrow>
     (case last_item (findall_version (case tag_name result of None \<Rightarrow> ''v0.0.0'' | Some t \<Rightarrow> t)) of
        Inl e \<Rightarrow> (st, Some e) | Inr (x, y, z) \<Rightarrow>
     (case py_int a of Inl e \<Rightarrow> (st, Some e) | Inr ia \<Rightarrow>
     (case py_int x of Inl e \<Rightarrow> (st, Some e) | Inr ix \<Rightarrow>
     (case py_int b of Inl e \<Rightarrow> (st, Some e) | Inr ib \<Rightarrow>
     (case py_int y of Inl e \<Rightarrow> (st, Some e) | Inr iy \<Rightarrow>
     (case py_int c of Inl e \<Rightarrow> (st, Some e) | Inr ic \<Rightarrow>
     (case py_int z of Inl e \<Rightarrow> (st, Some e) | Inr iz \<Rightarrow>
      if newer ia ib ic ix iy iz then
        (emit (APP_UPDATE_CHECK_DONE True)
          (emit (APP_TOAST_SHOW SUCCESS
                   (py_replace (app_new_version_toast L) ''{VERSION}''
                      (''v'' @ x @ ''.'' @ y @ ''.'' @ z))
                   (60 * 1000))
            (set_status NEW_VERSION st)), None)
      else (st, None))))))))))"

text \<open>\<open>except Exception: pass\<close>.\<close>

definition app_update_check_start_task :: "localizer \<Rightarrow> network \<Rightarrow> state \<Rightarrow> state" where
  "app_update_check_start_task L net st = fst (check_try L net st)"

text \<open>\<open>app_update_check_start\<close> starts a thread with the task; the result lists the threads started.\<close>

definition app_update_check_start :: "localizer \<Rightarrow> network \<Rightarrow> state \<Rightarrow> (state \<Rightarrow> state) list" where
  "app_update_check_start L net st = [app_update_check_start_task L net]"

section \<open>Downloading the update\<close>

text \<open>\<open>d.get(key, "")\<close> on a key whose value, when present, is a string.\<close>

definition get_or_empty :: "string option \<Rightarrow> string" where
  "get_or_empty v = (case v of None \<Rightarrow> [] | Some s \<Rightarrow> s)"

text \<open>
  The two \<open>for asset in assets\<close> loops: the URL of the first asset whose name ends in
  the suffix, the empty string when the loop ends without \<open>break\<close>.
\<close>

fun first_url :: "string \<Rightarrow> asset list \<Rightarrow> string" where
  "first_url suf [] = []"
| "first_url suf (a # rest) =
     (if endswith (get_or_empty (name a)) suf then get_or_empty (browser_download_url a)
      else first_url suf rest)"

definition select_url :: "string \<Rightarrow> string \<Rightarrow> asset list \<Rightarrow> string" where
  "select_url plat arch as =
     (if plat = ''macos'' then first_url (''_macOS_'' @ arch @ ''.dmg'') as
      else first_url ''.zip'' as)"

text \<open>\<open>int(response.headers.get("Content-Length", 0))\<close>.\<close>

definition total_size_of :: "stream_response \<Rightarrow> exn + int" where
  "total_size_of resp = (case content_length resp of None \<Rightarrow> Inr 0 | Some h \<Rightarrow> py_int h)"

text \<open>\<open>writer.write(chunk)\<close> on the staging file opened for writing.\<close>

definition write_temp :: "string \<Rightarrow> state \<Rightarrow> state" where
  "write_temp chunk st =
     st\<lparr> files := (files st)(TEMP_PATH \<mapsto>
            (case files st TEMP_PATH of None \<Rightarrow> chunk | Some old \<Rightarrow> old @ chunk)) \<rparr>"

text \<open>
  The loop over \<open>response.iter_bytes\<close>, with \<open>downloaded_size\<close> as accumulator; it
  returns the state and the final \<open>downloaded_size\<close>. A chunk is a byte string, never
  \<open>None\<close>. There is no \<open>break\<close> in the branch that reports completion.
\<close>

fun write_chunks :: "localizer \<Rightarrow> int \<Rightarrow> string list \<Rightarrow> int \<Rightarrow> state \<Rightarrow> state \<times> int" where
  "write_chunks L total_size [] downloaded_size st = (st, downloaded_size)"
| "write_chunks L total_size (chunk # rest) downloaded_size st =
     (let st1 = write_temp chunk st;
          d = downloaded_size + int (length chunk)
      in if total_size > d
         then write_chunks L total_size rest d
                (emit (APP_UPDATE_DOWNLOAD_UPDATE total_size d) st1)
         else write_chunks L total_size rest d
                (emit APP_UPDATE_DOWNLOAD_DONE
                  (emit (APP_TOAST_SHOW SUCCESS (app_new_version_success L) (60 * 1000))
                    (set_status DOWNLOADED st1))))"

text \<open>
  Removing a stale staging file and opening the path with mode \<open>wb\<close> leave an empty
  file there.
\<close>

definition open_temp :: "state \<Rightarrow> state" where
  "open_temp st = st\<lparr> files := (files st)(TEMP_PATH \<mapsto> []) \<rparr>"

text \<open>
  The \<open>try\<close> of \<open>app_update_download_start_task\<close> between \<open>set_status\<close> and the
  writing of the file: the release document, the choice of the asset, the streamed
  request and the check of the declared size. It changes nothing in the object and
  gives the exception raised, or the declared size with the response.
\<close>

definition request_download ::
  "string \<Rightarrow> string \<Rightarrow> network \<Rightarrow> exn + (int \<times> stream_response)" where
  "request_download sys_platform machine net =
     (case api_get net of Inl e \<Rightarrow> Inl e | Inr result \<Rightarrow>
     (let plat = fst (get_platform_info sys_platform machine);
          arch = snd (get_platform_info sys_platform machine);
          url = select_url plat arch (case assets result of None \<Rightarrow> [] | Some as \<Rightarrow> as)
      in if url = [] then
           Inl (Exception (''No suitable asset found for '' @ plat @ ''/'' @ arch))
         else
           (case stream_get net url of Inl e \<Rightarrow> Inl e | Inr resp \<Rightarrow>
           (case total_size_of resp of Inl e \<Rightarrow> Inl e | Inr total_size \<Rightarrow>
            if total_size = 0 then Inl (Exception ''Content-Length is 0 ...'')
            else Inr (total_size, resp)))))"

text \<open>
  The whole body of the \<open>try\<close>: the state reached and the exception raised, if any.
\<close>

definition download_try ::
  "localizer \<Rightarrow> string \<Rightarrow> string \<Rightarrow> network \<Rightarrow> state \<Rightarrow> state \<times> exn option" where
  "download_try L sys_platform machine net st =
     (let st1 = set_status UPDATING st in
      (case request_download sys_platform machine net of
         Inl e \<Rightarrow> (st1, Some e)
       | Inr (total_size, resp) \<Rightarrow>
           (fst (write_chunks L total_size (iter_bytes resp) 0 (open_temp st1)),
            iter_error resp)))"

text \<open>The \<open>except Exception as e\<close> branch after it.\<close>

definition download_failed :: "localizer \<Rightarrow> exn \<Rightarrow> state \<Rightarrow> state" where
  "download_failed L e st =
     emit APP_UPDATE_DOWNLOAD_ERROR
       (emit (APP_TOAST_SHOW ERROR (app_new_version_failure L @ str_exn e) (60 * 1000))
         (set_status NONE st))"

definition app_update_download_start_task ::
  "localizer \<Rightarrow> string \<Rightarrow> string \<Rightarrow> network \<Rightarrow> state \<Rightarrow> state" where
  "app_update_download_start_task L sys_platform machine net st =
     (case download_try L sys_platform machine net st of
        (st', None) \<Rightarrow> st'
      | (st', Some e) \<Rightarrow> download_failed L e st')"

definition app_update_download_start ::
  "localizer \<Rightarrow> string \<Rightarrow> string \<Rightarrow> network \<Rightarrow> state \<Rightarrow> (state \<Rightarrow> state) list" where
  "app_update_download_start L sys_platform machine net st =
     [app_update_download_start_task L sys_platform machine net]"

section \<open>Installing the update\<close>

text \<open>
  \<open>os.remove\<close> and \<open>os.rename\<close> on regular files. Removing needs the file to exist;
  renaming needs the source to exist and, on Windows, the target not to exist (elsewhere
  the target is replaced). Besides, the operating system may refuse to change a path (a
  file that is locked or in use, a directory that is read-only): \<open>refused\<close> is the set
  of these paths, and an operation on one of them raises.
\<close>

definition os_remove :: "string set \<Rightarrow> string \<Rightarrow> fs \<Rightarrow> exn + fs" where
  "os_remove refused p f =
     (if f p = None then Inl (ExternalError ''FileNotFoundError'')
      else if p \<in> refused then Inl (ExternalError ''PermissionError'')
      else Inr (f(p := None)))"

definition os_rename :: "string set \<Rightarrow> string \<Rightarrow> string \<Rightarrow> string \<Rightarrow> fs \<Rightarrow> exn + fs" where
  "os_rename refused sys_platform src dst f =
     (if f src = None then Inl (ExternalError ''FileNotFoundError'')
      else if sys_platform = ''win32'' \<and> f dst \<noteq> None then Inl (ExternalError ''FileExistsError'')
      else if src \<in> refused \<or> dst \<in> refused then Inl (ExternalError ''PermissionError'')
      else Inr ((f(src := None))(dst := f src)))"

text \<open>\<open>try: ... except Exception: pass\<close> around one file operation.\<close>

definition attempt :: "(fs \<Rightarrow> exn + fs) \<Rightarrow> state \<Rightarrow> state" where
  "attempt operation st =
     (case operation (files st) of Inl e \<Rightarrow> st | Inr f \<Rightarrow> st\<lparr> files := f \<rparr>)"

definition try_remove :: "string set \<Rightarrow> string \<Rightarrow> state \<Rightarrow> state" where
  "try_remove refused p st =
     attempt (os_remove refused p) (st\<lparr> journal := journal st @ [OS_REMOVE p] \<rparr>)"

definition try_rename :: "string set \<Rightarrow> string \<Rightarrow> string \<Rightarrow> string \<Rightarrow> state \<Rightarrow> state" where
  "try_rename refused sys_platform src dst st =
     attempt (os_rename refused sys_platform src dst)
       (st\<lparr> journal := journal st @ [OS_RENAME src dst] \<rparr>)"

text \<open>The block under \<open>if error is not None\<close>.\<close>

definition restore_backup :: "string set \<Rightarrow> string \<Rightarrow> state \<Rightarrow> state" where
  "restore_backup refused sys_platform st =
     try_rename refused sys_platform ''./version.txt.bak'' ''./version.txt''
       (try_rename refused sys_platform ''./app.exe.bak'' ''./app.exe''
         (try_remove refused ''./version.txt''
           (try_remove refused ''./app.exe'' st)))"

text \<open>
  The two blocks between the setting of the flag and the \<open>try\<close>: the stale backups are
  removed, the current files renamed to their \<open>.bak\<close> names.
\<close>

definition backup_current :: "string set \<Rightarrow> string \<Rightarrow> state \<Rightarrow> state" where
  "backup_current refused sys_platform st =
     try_rename refused sys_platform ''./version.txt'' ''./version.txt.bak''
       (try_rename refused sys_platform ''./app.exe'' ''./app.exe.bak''
         (try_remove refused ''./version.txt.bak''
           (try_remove refused ''./app.exe.bak'' st)))"

text \<open>
  The macOS branch of \<open>app_update_extract_task\<close>: the toast, the release page, and at
  last the flag cleared. \<open>time.sleep\<close> has no counterpart here.
\<close>

definition handoff :: "localizer \<Rightarrow> state \<Rightarrow> state" where
  "handoff L st =
     set_extracting False
       ((emit (APP_TOAST_SHOW SUCCESS (app_new_version_waiting_restart L) (60 * 1000)) st)
          \<lparr> opened := opened st @ [RELEASE_URL] \<rparr>)"

text \<open>
  The Windows branch after its first statement, which sets the flag: from the removal
  of the stale backups to \<open>os.kill\<close>. The extraction proper (opening the archive at
  \<open>TEMP_PATH\<close>, \<open>extractall\<close>, \<open>copytree\<close>, \<open>rmtree\<close>) is library code working on the file
  system: \<open>unpack\<close> gives the files it leaves behind and the exception it raised, if any.
\<close>

definition in_place_install ::
  "localizer \<Rightarrow> string set \<Rightarrow> string \<Rightarrow> (fs \<Rightarrow> fs \<times> exn option) \<Rightarrow> state \<Rightarrow> state" where
  "in_place_install L refused sys_platform unpack st =
     (let st1 = backup_current refused sys_platform st;
          error = snd (unpack (files st1));
          st2 = st1\<lparr> files := fst (unpack (files st1)),
                     logged := logged st1 @ (case error of None \<Rightarrow> [] | Some e \<Rightarrow> [e]),
                     journal := journal st1 @ [EXTRACT] \<rparr>;
          st3 = (if error \<noteq> None then restore_backup refused sys_platform st2 else st2);
          st4 = try_remove refused TEMP_PATH st3;
          st5 = emit (APP_TOAST_SHOW SUCCESS (app_new_version_waiting_restart L) (60 * 1000)) st4
      in st5\<lparr> opened := opened st5 @ [RELEASE_URL], terminated := True \<rparr>)"

text \<open>\<open>app_update_extract_task\<close>: the branch by platform.\<close>

definition app_update_extract_task ::
  "localizer \<Rightarrow> string set \<Rightarrow> string \<Rightarrow> string \<Rightarrow> (fs \<Rightarrow> fs \<times> exn option) \<Rightarrow> state \<Rightarrow> state" where
  "app_update_extract_task L refused sys_platform machine unpack st =
     (if fst (get_platform_info sys_platform machine) = ''macos'' then handoff L st
      else in_place_install L refused sys_platform unpack (set_extracting True st))"


section \<open>Sample inputs\<close>

text \<open>
  A release document with one archive asset, and a network that serves it and answers
  the streamed request with a given Content-Length header, chunks and final exception.
\<close>

definition sample_release :: release where
  "sample_release =
     \<lparr> tag_name = Some ''v1.2.3'',
       assets = Some [\<lparr> name = Some ''LinguaGacha_v1.2.3.zip'',
                        browser_download_url = Some ''https://example.org/LinguaGacha_v1.2.3.zip'' \<rparr>] \<rparr>"

definition serving :: "string option \<Rightarrow> string list \<Rightarrow> exn option \<Rightarrow> network" where
  "serving header chunks err =
     \<lparr> api_get = Inr sample_release,
       stream_get = (\<lambda>url. Inr \<lparr> content_length = header, iter_bytes = chunks, iter_error = err \<rparr>) \<rparr>"

text \<open>
  An installation with a staged archive, and two extractions that raise: one after
  writing part of the new executable; one for an archive whose only member is named
  \<open>app.exe.bak\<close>, which \<open>extractall\<close> writes into the application directory before
  \<open>copytree\<close> raises because there is no \<open>LinguaGacha\<close> directory to copy.
\<close>

definition overwriting_unpack :: "fs \<Rightarrow> fs \<times> exn option" where
  "overwriting_unpack g =
     (g(''./app.exe.bak'' \<mapsto> ''new''), Some (ExternalError ''FileNotFoundError''))"

definition failing_unpack :: "fs \<Rightarrow> fs \<times> exn option" where
  "failing_unpack g = (g(''./app.exe'' \<mapsto> ''partial''), Some (ExternalError ''BadZipFile''))"

definition installed :: fs where
  "installed = [''./app.exe'' \<mapsto> ''old'', ''./version.txt'' \<mapsto> ''v1.0.0'',
                TEMP_PATH \<mapsto> ''archive'']"


section \<open>Observations on a run\<close>

text \<open>The values \<open>downloaded_size\<close> takes after each chunk, starting from \<open>d\<close>.\<close>

fun running_sizes :: "int \<Rightarrow> string list \<Rightarrow> int list" where
  "running_sizes d [] = []"
| "running_sizes d (chunk # rest) =
     (d + int (length chunk)) # running_sizes (d + int (length chunk)) rest"

text \<open>The events of the download channel: progress, and the two terminal events.\<close>

fun is_progress :: "event \<Rightarrow> bool" where
  "is_progress (APP_UPDATE_DOWNLOAD_UPDATE t d) = True"
| "is_progress e = False"

fun is_terminal :: "event \<Rightarrow> bool" where
  "is_terminal APP_UPDATE_DOWNLOAD_DONE = True"
| "is_terminal APP_UPDATE_DOWNLOAD_ERROR = True"
| "is_terminal e = False"


text \<open>The \<open>downloaded_size\<close> and the \<open>total_size\<close> of the progress events in a list.\<close>

fun progress_downloaded :: "event list \<Rightarrow> int list" where
  "progress_downloaded [] = []"
| "progress_downloaded (APP_UPDATE_DOWNLOAD_UPDATE t d # evs) = d # progress_downloaded evs"
| "progress_downloaded (e # evs) = progress_downloaded evs"

fun progress_below_total :: "event list \<Rightarrow> bool" where
  "progress_below_total [] = True"
| "progress_below_total (APP_UPDATE_DOWNLOAD_UPDATE t d # evs) = (d < t \<and> progress_below_total evs)"
| "progress_below_total (e # evs) = progress_below_total evs"

text \<open>The events a method has added to those of the state it started from.\<close>

definition new_events :: "state \<Rightarrow> state \<Rightarrow> event list" where
  "new_events st st' = drop (length (events st)) (events st')"


section \<open>The version pattern finds the trailing triple\<close>

lemma not_digit_simps [simp]:
  "\<not> is_digit CHR ''.''" "\<not> is_digit CHR ''v''" "\<not> is_digit (CHR 0x0A)"
  by (simp_all add: is_digit_def)

lemma digits1_run:
  assumes "list_all is_digit d" "d \<noteq> []" "r = [] \<or> \<not> is_digit (hd r)"
  shows "digits1 (d @ r) = Some (d, r)"
proof -
  have "takeWhile is_digit (d @ r) = d" "dropWhile is_digit (d @ r) = r"
    using assms by (cases r; simp add: list_all_iff takeWhile_append2 dropWhile_append2
        takeWhile_eq_all_conv)+
  with assms(2) show ?thesis by (simp add: digits1_def)
qed

lemma digits1_SomeD:
  assumes "digits1 s = Some (d, r)"
  shows "s = d @ r \<and> list_all is_digit d \<and> d \<noteq> []"
  using assms
  by (auto simp: digits1_def Let_def list_all_iff split: if_splits dest: set_takeWhileD)

lemma lit_SomeD: "lit c s = Some r \<Longrightarrow> s = c # r"
  by (auto simp: lit_def split: list.splits if_splits)

lemma match_here_exact:
  assumes "list_all is_digit a" "a \<noteq> []" "list_all is_digit b" "b \<noteq> []"
    "list_all is_digit c" "c \<noteq> []"
  shows "match_here (CHR ''v'' # a @ CHR ''.'' # b @ CHR ''.'' # c) = Some ((a, b, c), [])"
proof -
  have 1: "digits1 (a @ CHR ''.'' # b @ CHR ''.'' # c) = Some (a, CHR ''.'' # b @ CHR ''.'' # c)"
    using assms by (intro digits1_run) simp_all
  have 2: "digits1 (b @ CHR ''.'' # c) = Some (b, CHR ''.'' # c)"
    using assms by (intro digits1_run) simp_all
  have 3: "digits1 c = Some (c, [])"
    using digits1_run [of c "[]"] assms by simp
  show ?thesis by (simp add: match_here_def lit_def 1 2 3)
qed

lemma match_here_SomeD:
  assumes "match_here s = Some ((a, b, c), r)"
  shows "s = CHR ''v'' # a @ CHR ''.'' # b @ CHR ''.'' # c @ r
         \<and> list_all is_digit a \<and> list_all is_digit b \<and> list_all is_digit c
         \<and> a \<noteq> [] \<and> b \<noteq> [] \<and> c \<noteq> []
         \<and> (r = [] \<or> r = [CHR 0x0A])"
  using assms unfolding match_here_def
  by (auto split: option.splits prod.splits if_splits dest!: lit_SomeD digits1_SomeD)

lemma match_here_tail_no_v:
  assumes "match_here (x # t) = Some (g, r)"
  shows "CHR ''v'' \<notin> set t"
proof -
  obtain a b c where g: "g = (a, b, c)" by (cases g) auto
  from match_here_SomeD [OF assms [unfolded g]]
  have t: "t = a @ CHR ''.'' # b @ CHR ''.'' # c @ r"
    and d: "list_all is_digit a" "list_all is_digit b" "list_all is_digit c"
    and r: "r = [] \<or> r = [CHR 0x0A]" by auto
  have "\<And>u. list_all is_digit u \<Longrightarrow> CHR ''v'' \<notin> set u"
    by (auto simp: list_all_iff)
  with d r show ?thesis unfolding t by auto
qed

lemma findall_from_skip: "length t \<le> k \<Longrightarrow> findall_from k t = []"
  by (induction k t rule: findall_from.induct) auto

lemma findall_from_suffix:
  assumes "list_all is_digit a" "a \<noteq> []" "list_all is_digit b" "b \<noteq> []"
    "list_all is_digit c" "c \<noteq> []"
  shows "findall_from 0 (p @ CHR ''v'' # a @ CHR ''.'' # b @ CHR ''.'' # c) = [(a, b, c)]"
proof (induction p)
  case Nil
  show ?case using match_here_exact [OF assms] by (simp add: findall_from_skip)
next
  case (Cons x p)
  have "match_here (x # p @ CHR ''v'' # a @ CHR ''.'' # b @ CHR ''.'' # c) = None"
  proof (cases "match_here (x # p @ CHR ''v'' # a @ CHR ''.'' # b @ CHR ''.'' # c)")
    case (Some m)
    then have "CHR ''v'' \<notin> set (p @ CHR ''v'' # a @ CHR ''.'' # b @ CHR ''.'' # c)"
      using match_here_tail_no_v [of x "p @ CHR ''v'' # a @ CHR ''.'' # b @ CHR ''.'' # c" "fst m" "snd m"]
      by simp
    then show ?thesis by simp
  qed simp
  with Cons show ?case by simp
qed

lemma py_int_decimal:
  "is_decimal s \<Longrightarrow> length s \<le> max_str_digits \<Longrightarrow> py_int s = Inr (int (nat_of_digits s))"
  by (simp add: py_int_def)


lemma py_int_nonneg: "py_int s = Inr n \<Longrightarrow> 0 \<le> n"
  by (auto simp: py_int_def split: if_splits)



lemma findall_version_suffix:
  assumes "is_decimal a" "is_decimal b" "is_decimal c"
  shows "findall_version (p @ ''v'' @ a @ ''.'' @ b @ ''.'' @ c) = [(a, b, c)]"
  using findall_from_suffix [of a b c p] assms
  by (simp add: findall_version_def is_decimal_def)

lemma findall_from_decimal:
  "(a, b, c) \<in> set (findall_from k s) \<Longrightarrow> is_decimal a \<and> is_decimal b \<and> is_decimal c"
proof (induction s arbitrary: k)
  case Nil
  then show ?case by simp
next
  case (Cons x t)
  show ?case
  proof (cases k)
    case (Suc j)
    with Cons show ?thesis by simp
  next
    case 0
    show ?thesis
    proof (cases "match_here (x # t)")
      case None
      with Cons 0 show ?thesis by simp
    next
      case (Some m)
      obtain g r where m: "m = (g, r)" by (cases m)
      from Cons.prems 0 Some m
      have "(a, b, c) = g \<or> (a, b, c) \<in> set (findall_from (length t - length r) t)"
        by simp
      then show ?thesis
      proof
        assume "(a, b, c) = g"
        with Some m match_here_SomeD [of "x # t" a b c r] show ?thesis
          by (simp add: is_decimal_def)
      next
        assume "(a, b, c) \<in> set (findall_from (length t - length r) t)"
        then show ?thesis by (rule Cons.IH)
      qed
    qed
  qed
qed

lemma last_item_decimal:
  assumes "last_item (findall_version s) = Inr (a, b, c)"
  shows "is_decimal a \<and> is_decimal b \<and> is_decimal c"
proof -
  from assms have "findall_version s \<noteq> []" "last (findall_version s) = (a, b, c)"
    by (auto simp: last_item_def split: if_splits)
  then have "(a, b, c) \<in> set (findall_from 0 s)"
    unfolding findall_version_def using last_in_set by metis
  then show ?thesis by (rule findall_from_decimal)
qed


section \<open>Properties of the update check\<close>





text \<open>
  Claim C10. When the release document has no \<open>tag_name\<close>, the tag defaults to
  \<open>v0.0.0\<close>; for every running version in which the pattern finds a triple the check
  then makes no report: no event is emitted and the status, like the rest of the state,
  is unchanged. When no component of the running version has more than 4300 digits the
  \<open>try\<close> ends without an exception (with more, \<open>int()\<close> raises and the exception is
  swallowed, to the same effect).
\<close>

theorem missing_tag_reports_nothing:
  assumes "api_get net = Inr result"
    and "tag_name result = None"
    and "last_item (findall_version (version st)) = Inr (a, b, c)"
  shows "app_update_check_start_task L net st = st
       \<and> fst (check_try L net st) = st
       \<and> (list_all (\<lambda>s. length s \<le> max_str_digits) [a, b, c] \<longrightarrow>
            check_try L net st = (st, None))"
proof -
  have d: "is_decimal a" "is_decimal b" "is_decimal c"
    using last_item_decimal [OF assms(3)] by simp_all
  have z: "is_decimal ''0''" by (simp add: is_decimal_def is_digit_def)
  have rem: "last_item (findall_version ''v0.0.0'') = Inr (''0'', ''0'', ''0'')"
    using findall_version_suffix [of "''0''" "''0''" "''0''" "[]"] z
    by (simp add: last_item_def)
  have n: "py_int ''0'' = Inr 0"
    by (simp add: py_int_def z max_str_digits_def nat_of_digits_def digit_val_def)
  have 1: "fst (check_try L net st) = st"
    unfolding check_try_def using assms rem
    by (auto simp: get_version_def n newer_def split: sum.splits dest: py_int_nonneg)
  have 2: "check_try L net st = (st, None)"
    if "list_all (\<lambda>s. length s \<le> max_str_digits) [a, b, c]"
    unfolding check_try_def using assms rem that
    by (simp add: get_version_def py_int_decimal d n newer_def)
  from 1 2 show ?thesis by (simp add: app_update_check_start_task_def)
qed

theorem missing_tag_reports_nothing_witness:
  "check_try sample_localizer \<lparr> api_get = Inr \<lparr> tag_name = None, assets = None \<rparr>,
                 stream_get = (\<lambda>u. Inl (ExternalError [])) \<rparr>
     (set_version ''v1.2.3'' (init_state Map.empty))
   = (set_version ''v1.2.3'' (init_state Map.empty), None)"
proof -
  have h: "last_item (findall_version (version (set_version ''v1.2.3'' (init_state Map.empty))))
           = Inr (''1'', ''2'', ''3'')"
    by (simp add: set_version_def init_state_def findall_version_def match_here_def lit_def
        digits1_def is_digit_def last_item_def)
  show ?thesis
    using missing_tag_reports_nothing [of
        "\<lparr> api_get = Inr \<lparr> tag_name = None, assets = None \<rparr>,
           stream_get = (\<lambda>u. Inl (ExternalError [])) \<rparr>"
        "\<lparr> tag_name = None, assets = None \<rparr>" _ "''1''" "''2''" "''3''" sample_localizer, OF _ _ h]
    by (simp add: max_str_digits_def)
qed

section \<open>The download loop and the events of a download\<close>


lemma events_write_chunks:
  "events (fst (write_chunks L t cs d st)) =
     events st @ concat (map (\<lambda>s. if s < t then [APP_UPDATE_DOWNLOAD_UPDATE t s]
                                   else [APP_TOAST_SHOW SUCCESS (app_new_version_success L) 60000,
                                         APP_UPDATE_DOWNLOAD_DONE])
                           (running_sizes d cs))"
  by (induction cs arbitrary: d st) (simp_all add: Let_def emit_def set_status_def write_temp_def)

lemma snd_write_chunks: "snd (write_chunks L t cs d st) = last (d # running_sizes d cs)"
  by (induction cs arbitrary: d st) (simp_all add: Let_def)

lemma status_write_chunks:
  "status (fst (write_chunks L t cs d st)) =
     (if list_all (\<lambda>s. s < t) (running_sizes d cs) then status st else DOWNLOADED)"
  by (induction cs arbitrary: d st) (simp_all add: Let_def emit_def set_status_def write_temp_def)

lemma transitions_write_chunks:
  "\<exists>rest. transitions (fst (write_chunks L t cs d st)) = transitions st @ rest
          \<and> snd ` set rest \<subseteq> {DOWNLOADED}"
proof (induction cs arbitrary: d st)
  case Nil
  show ?case by simp
next
  case (Cons c cs)
  let ?d = "d + int (length c)"
  show ?case
  proof (cases "?d < t")
    case True
    with Cons [of ?d "emit (APP_UPDATE_DOWNLOAD_UPDATE t ?d) (write_temp c st)"]
    show ?thesis by (simp add: Let_def emit_def write_temp_def)
  next
    case False
    let ?st = "emit APP_UPDATE_DOWNLOAD_DONE
                  (emit (APP_TOAST_SHOW SUCCESS (app_new_version_success L) (60 * 1000))
                    (set_status DOWNLOADED (write_temp c st)))"
    from Cons [of ?d ?st] obtain rest where
      "transitions (fst (write_chunks L t cs ?d ?st)) = transitions ?st @ rest"
      "snd ` set rest \<subseteq> {DOWNLOADED}" by blast
    with False show ?thesis
      by (intro exI [of _ "(status st, DOWNLOADED) # rest"])
         (simp add: Let_def emit_def set_status_def write_temp_def)
  qed
qed

lemma write_chunks_append:
  "write_chunks L t (xs @ ys) d st =
     write_chunks L t ys (snd (write_chunks L t xs d st)) (fst (write_chunks L t xs d st))"
  by (induction xs arbitrary: d st) (simp_all add: Let_def)

lemma running_sizes_append:
  "running_sizes d (xs @ ys) = running_sizes d xs @ running_sizes (last (d # running_sizes d xs)) ys"
  by (induction xs arbitrary: d) simp_all

lemma length_running_sizes [simp]: "length (running_sizes d cs) = length cs"
  by (induction cs arbitrary: d) simp_all

lemma running_sizes_ge: "s \<in> set (running_sizes d cs) \<Longrightarrow> d \<le> s"
  by (induction cs arbitrary: d) force+

lemma sorted_running_sizes: "sorted (running_sizes d cs)"
  by (induction cs arbitrary: d) (auto dest: running_sizes_ge)

lemma running_sizes_take: "running_sizes d (take n cs) = take n (running_sizes d cs)"
  by (induction cs arbitrary: d n) (simp_all add: take_Cons split: nat.splits)


lemma filter_progress_map [simp]:
  "filter (\<lambda>e. is_progress e \<or> is_terminal e) (map (APP_UPDATE_DOWNLOAD_UPDATE t) xs)
     = map (APP_UPDATE_DOWNLOAD_UPDATE t) xs"
  by (induction xs) simp_all

lemma all_progress_map [simp]: "list_all is_progress (map (APP_UPDATE_DOWNLOAD_UPDATE t) xs)"
  by (induction xs) simp_all

lemma progress_downloaded_concat:
  "progress_downloaded (concat (map (\<lambda>s. if s < t then [APP_UPDATE_DOWNLOAD_UPDATE t s]
                                   else [APP_TOAST_SHOW k m n, APP_UPDATE_DOWNLOAD_DONE]) xs))
     = filter (\<lambda>s. s < t) xs"
  by (induction xs) simp_all

lemma progress_below_concat:
  "progress_below_total (concat (map (\<lambda>s. if s < t then [APP_UPDATE_DOWNLOAD_UPDATE t s]
                                   else [APP_TOAST_SHOW k m n, APP_UPDATE_DOWNLOAD_DONE]) xs))"
  by (induction xs) simp_all

lemma progress_downloaded_append:
  "progress_downloaded (xs @ ys) = progress_downloaded xs @ progress_downloaded ys"
  by (induction xs rule: progress_downloaded.induct) simp_all

lemma progress_below_append:
  "progress_below_total (xs @ ys) = (progress_below_total xs \<and> progress_below_total ys)"
  by (induction xs rule: progress_below_total.induct) simp_all

text \<open>The events a download task adds, in every case.\<close>

lemma events_download_task:
  "new_events st (app_update_download_start_task L sp m net st) =
     (case request_download sp m net of
        Inl e \<Rightarrow> [APP_TOAST_SHOW ERROR (app_new_version_failure L @ str_exn e) 60000,
                  APP_UPDATE_DOWNLOAD_ERROR]
      | Inr (t, resp) \<Rightarrow>
          concat (map (\<lambda>s. if s < t then [APP_UPDATE_DOWNLOAD_UPDATE t s]
                           else [APP_TOAST_SHOW SUCCESS (app_new_version_success L) 60000,
                                 APP_UPDATE_DOWNLOAD_DONE])
                    (running_sizes 0 (iter_bytes resp)))
          @ (case iter_error resp of None \<Rightarrow> []
             | Some e \<Rightarrow> [APP_TOAST_SHOW ERROR (app_new_version_failure L @ str_exn e) 60000,
                          APP_UPDATE_DOWNLOAD_ERROR]))"
  by (simp add: new_events_def app_update_download_start_task_def download_try_def
      download_failed_def emit_def set_status_def events_write_chunks open_temp_def
      split: sum.splits prod.splits option.splits)

lemma request_total_pos:
  assumes "request_download sp m net = Inr (t, resp)"
  shows "0 < t"
proof -
  from assms obtain r where t: "total_size_of r = Inr t" "t \<noteq> 0"
    by (auto simp: request_download_def Let_def split: sum.splits if_splits)
  then have "0 \<le> t"
    by (auto simp: total_size_of_def py_int_def split: option.splits if_splits)
  with t show ?thesis by simp
qed

lemma sample_url:
  "select_url (fst (get_platform_info ''win32'' ''AMD64'')) (snd (get_platform_info ''win32'' ''AMD64''))
     (case assets sample_release of None \<Rightarrow> [] | Some as \<Rightarrow> as)
   = ''https://example.org/LinguaGacha_v1.2.3.zip''"
  by (simp add: select_url_def get_platform_info_def sample_release_def endswith_def
      get_or_empty_def)

lemma is_decimal_code [simp]:
  "is_decimal ''0'' " "is_decimal ''1''" "is_decimal ''2''" "is_decimal ''3''"
  by (simp_all add: is_decimal_def is_digit_def)

lemma nat_of_digits_code [simp]:
  "nat_of_digits ''0'' = 0" "nat_of_digits ''1'' = 1" "nat_of_digits ''2'' = 2"
  "nat_of_digits ''3'' = 3"
  by (simp_all add: nat_of_digits_def digit_val_def)

lemma request_serving:
  "request_download ''win32'' ''AMD64'' (serving (Some h) cs err) =
     (case py_int h of Inl e \<Rightarrow> Inl e
      | Inr t \<Rightarrow> if t = 0 then Inl (Exception ''Content-Length is 0 ...'')
                 else Inr (t, \<lparr> content_length = Some h, iter_bytes = cs, iter_error = err \<rparr>))"
  using sample_url
  by (simp add: request_download_def serving_def Let_def total_size_of_def split: sum.splits)

lemma last_concat_step:
  assumes "j < length xs" "\<And>x. f x \<noteq> []"
  shows "last (ys @ concat (map f (take (Suc j) xs))) = last (f (xs ! j))"
  using assms by (simp add: take_Suc_conv_app_nth)

lemma no_done_all_below:
  assumes "APP_UPDATE_DOWNLOAD_DONE \<notin> set (concat (map (\<lambda>s. if s < t then [APP_UPDATE_DOWNLOAD_UPDATE t s]
                           else [APP_TOAST_SHOW k m n, APP_UPDATE_DOWNLOAD_DONE]) xs))"
  shows "list_all (\<lambda>s. s < t) xs"
  using assms by (induction xs) (auto split: if_splits)

section \<open>Properties of the download\<close>



text \<open>
  Claim C8. When the response to the streamed request has no Content-Length header, or
  one that reads as zero, the download ends with the error toast and the download-error
  event and emits nothing else, so no progress event; the files are as they were, so
  nothing has been written to the staging file; the status is \<open>NONE\<close>. The toast says
  that the length is 0; for a header of more than 4300 zeros it says that \<open>int()\<close> has
  refused to read it.
\<close>

theorem zero_length_fails_before_writing:
  assumes "api_get net = Inr result"
    and "select_url (fst (get_platform_info sys_platform machine))
           (snd (get_platform_info sys_platform machine))
           (case assets result of None \<Rightarrow> [] | Some as \<Rightarrow> as) = url"
    and "url \<noteq> []"
    and "stream_get net url = Inr resp"
    and "content_length resp = None
         \<or> (content_length resp = Some h \<and> is_decimal h \<and> nat_of_digits h = 0)"
  shows "events (app_update_download_start_task L sys_platform machine net st) =
           events st @
           [APP_TOAST_SHOW ERROR
              (app_new_version_failure L @
                 (if content_length resp = None \<or> length h \<le> max_str_digits
                  then ''Content-Length is 0 ...'' else exceeds_limit h)) 60000,
            APP_UPDATE_DOWNLOAD_ERROR]
         \<and> files (app_update_download_start_task L sys_platform machine net st) = files st
         \<and> status (app_update_download_start_task L sys_platform machine net st) = NONE"
proof -
  have "total_size_of resp =
          (if content_length resp = None \<or> length h \<le> max_str_digits then Inr 0
           else Inl (ValueError (exceeds_limit h)))"
    using assms(5) by (auto simp: total_size_of_def py_int_def)
  then have "request_download sys_platform machine net =
          Inl (if content_length resp = None \<or> length h \<le> max_str_digits
               then Exception ''Content-Length is 0 ...'' else ValueError (exceeds_limit h))"
    using assms(1-4) by (simp add: request_download_def Let_def)
  then show ?thesis
    by (simp add: app_update_download_start_task_def download_try_def download_failed_def
        emit_def set_status_def)
qed

theorem zero_length_fails_before_writing_witness:
  "events (app_update_download_start_task sample_localizer ''win32'' ''AMD64''
              (serving None [''abc''] None) (init_state Map.empty))
     = [APP_TOAST_SHOW ERROR ''Update failed: Content-Length is 0 ...'' 60000,
        APP_UPDATE_DOWNLOAD_ERROR]
   \<and> files (app_update_download_start_task sample_localizer ''win32'' ''AMD64''
              (serving (Some ''0'') [''abc''] None) (init_state Map.empty)) = Map.empty"
proof -
  have 1: "\<And>h. api_get (serving h [''abc''] None) = Inr sample_release"
    by (simp add: serving_def)
  have 2: "\<And>h. stream_get (serving h [''abc''] None) ''https://example.org/LinguaGacha_v1.2.3.zip''
             = Inr \<lparr> content_length = h, iter_bytes = [''abc''], iter_error = None \<rparr>"
    by (simp add: serving_def)
  show ?thesis
    using zero_length_fails_before_writing [OF 1 sample_url _ 2, of None "[]"
        sample_localizer "init_state Map.empty"]
      zero_length_fails_before_writing [OF 1 sample_url _ 2, of "Some ''0''" "''0''"
        sample_localizer "init_state Map.empty"]
    by (simp add: sample_localizer_def init_state_def max_str_digits_def)
qed




text \<open>
  Claim C5, as stated, fails in its last part: the done event is emitted when the
  accumulated size is at least the declared size, not only when it is equal. With a
  declared size of 1 and the single chunk \<open>ab\<close> the download ends in success with
  \<open>downloaded_size = 2\<close>. (The header counts the bytes sent, the iteration yields the
  decoded bytes, so the two differ for a content-encoded response.)
\<close>

theorem done_past_total_counterexample:
  "request_download ''win32'' ''AMD64'' (serving (Some ''1'') [''ab''] None)
     = Inr (1, \<lparr> content_length = Some ''1'', iter_bytes = [''ab''], iter_error = None \<rparr>)
   \<and> new_events (init_state Map.empty)
        (app_update_download_start_task sample_localizer ''win32'' ''AMD64''
           (serving (Some ''1'') [''ab''] None) (init_state Map.empty))
     = [APP_TOAST_SHOW SUCCESS ''Download complete'' 60000, APP_UPDATE_DOWNLOAD_DONE]
   \<and> snd (write_chunks sample_localizer 1 [''ab''] 0
            (open_temp (set_status UPDATING (init_state Map.empty)))) = 2"
  by (simp add: events_download_task request_serving py_int_def max_str_digits_def sample_localizer_def)

text \<open>
  Claim C5, amended. In the events a download adds, the \<open>downloaded_size\<close> of the
  progress events never decreases and each is below its \<open>total_size\<close>. After each chunk
  \<open>j\<close> (the loop run on the first \<open>j + 1\<close> chunks) \<open>downloaded_size\<close> is the sum of the
  chunk lengths so far, and the event just emitted is the done event exactly when that
  sum is at least \<open>total_size\<close>, a progress event with that sum exactly when it is below.
  When a download has emitted no done event, \<open>downloaded_size\<close> ends below
  \<open>total_size\<close>.
\<close>

theorem progress_monotone_below_total:
  "sorted (progress_downloaded (new_events st (app_update_download_start_task L sp m net st)))
   \<and> progress_below_total (new_events st (app_update_download_start_task L sp m net st))
   \<and> (request_download sp m net = Inr (t, resp) \<longrightarrow> j < length (iter_bytes resp) \<longrightarrow>
        snd (write_chunks L t (take (Suc j) (iter_bytes resp)) 0 st1)
          = running_sizes 0 (iter_bytes resp) ! j
        \<and> (last (events (fst (write_chunks L t (take (Suc j) (iter_bytes resp)) 0 st1)))
             = APP_UPDATE_DOWNLOAD_DONE
           \<longleftrightarrow> t \<le> running_sizes 0 (iter_bytes resp) ! j)
        \<and> (last (events (fst (write_chunks L t (take (Suc j) (iter_bytes resp)) 0 st1)))
             = APP_UPDATE_DOWNLOAD_UPDATE t (running_sizes 0 (iter_bytes resp) ! j)
           \<longleftrightarrow> running_sizes 0 (iter_bytes resp) ! j < t))
   \<and> (request_download sp m net = Inr (t, resp) \<longrightarrow>
        APP_UPDATE_DOWNLOAD_DONE
          \<notin> set (new_events st (app_update_download_start_task L sp m net st)) \<longrightarrow>
        snd (write_chunks L t (iter_bytes resp) 0 st1) < t)"
proof (intro conjI impI)
  show "sorted (progress_downloaded (new_events st (app_update_download_start_task L sp m net st)))"
    by (simp add: events_download_task progress_downloaded_append progress_downloaded_concat
        sorted_running_sizes sorted_wrt_filter split: sum.splits option.splits)
  show "progress_below_total (new_events st (app_update_download_start_task L sp m net st))"
    by (simp add: events_download_task progress_below_append progress_below_concat
        split: sum.splits option.splits)
next
  assume j: "j < length (iter_bytes resp)"
  let ?cs = "iter_bytes resp"
  have "snd (write_chunks L t (take (Suc j) ?cs) 0 st1) = last (0 # take (Suc j) (running_sizes 0 ?cs))"
    by (simp add: snd_write_chunks running_sizes_take)
  also have "\<dots> = running_sizes 0 ?cs ! j"
    using j by (simp add: take_Suc_conv_app_nth)
  finally show "snd (write_chunks L t (take (Suc j) ?cs) 0 st1) = running_sizes 0 ?cs ! j" .
  have la: "last (events (fst (write_chunks L t (take (Suc j) ?cs) 0 st1))) =
        last (if running_sizes 0 ?cs ! j < t
              then [APP_UPDATE_DOWNLOAD_UPDATE t (running_sizes 0 ?cs ! j)]
              else [APP_TOAST_SHOW SUCCESS (app_new_version_success L) 60000,
                    APP_UPDATE_DOWNLOAD_DONE])"
    unfolding events_write_chunks running_sizes_take
    using j by (subst last_concat_step) simp_all
  show "last (events (fst (write_chunks L t (take (Suc j) ?cs) 0 st1))) = APP_UPDATE_DOWNLOAD_DONE
          \<longleftrightarrow> t \<le> running_sizes 0 ?cs ! j"
    unfolding la by simp
  show "last (events (fst (write_chunks L t (take (Suc j) ?cs) 0 st1)))
          = APP_UPDATE_DOWNLOAD_UPDATE t (running_sizes 0 ?cs ! j)
          \<longleftrightarrow> running_sizes 0 ?cs ! j < t"
    unfolding la by simp
next
  assume r: "request_download sp m net = Inr (t, resp)"
    and nd: "APP_UPDATE_DOWNLOAD_DONE
          \<notin> set (new_events st (app_update_download_start_task L sp m net st))"
  from nd r have "list_all (\<lambda>s. s < t) (running_sizes 0 (iter_bytes resp))"
    by (intro no_done_all_below [where k = SUCCESS and m = "app_new_version_success L" and n = 60000])
       (simp add: events_download_task)
  moreover have "0 < t" using r by (rule request_total_pos)
  ultimately show "snd (write_chunks L t (iter_bytes resp) 0 st1) < t"
    by (cases "running_sizes 0 (iter_bytes resp) = []")
       (auto simp: snd_write_chunks list_all_iff)
qed

theorem progress_monotone_below_total_witness:
  "snd (write_chunks sample_localizer 3 (take (Suc 1) [''a'', ''bc'']) 0 (init_state Map.empty)) = 3
   \<and> last (events (fst (write_chunks sample_localizer 3 (take (Suc 1) [''a'', ''bc'']) 0
                          (init_state Map.empty)))) = APP_UPDATE_DOWNLOAD_DONE
   \<and> snd (write_chunks sample_localizer 3 [''a'']  0 (init_state Map.empty)) < 3"
proof -
  have 1: "request_download ''win32'' ''AMD64'' (serving (Some ''3'') [''a'', ''bc''] None)
     = Inr (3, \<lparr> content_length = Some ''3'', iter_bytes = [''a'', ''bc''], iter_error = None \<rparr>)"
    by (simp add: request_serving py_int_def max_str_digits_def)
  have 2: "request_download ''win32'' ''AMD64''
             (serving (Some ''3'') [''a''] (Some (ExternalError ''connection reset'')))
     = Inr (3, \<lparr> content_length = Some ''3'', iter_bytes = [''a''],
                  iter_error = Some (ExternalError ''connection reset'') \<rparr>)"
    by (simp add: request_serving py_int_def max_str_digits_def)
  have 3: "APP_UPDATE_DOWNLOAD_DONE \<notin> set (new_events (init_state Map.empty)
              (app_update_download_start_task sample_localizer ''win32'' ''AMD64''
                (serving (Some ''3'') [''a''] (Some (ExternalError ''connection reset'')))
                (init_state Map.empty)))"
    by (simp add: events_download_task 2)
  show ?thesis
    using progress_monotone_below_total [of "init_state Map.empty" sample_localizer "''win32''"
        "''AMD64''" "serving (Some ''3'') [''a'', ''bc''] None" 3
        "\<lparr> content_length = Some ''3'', iter_bytes = [''a'', ''bc''], iter_error = None \<rparr>"
        1 "init_state Map.empty"] 1
      progress_monotone_below_total [of "init_state Map.empty" sample_localizer "''win32''"
        "''AMD64''" "serving (Some ''3'') [''a''] (Some (ExternalError ''connection reset''))" 3
        "\<lparr> content_length = Some ''3'', iter_bytes = [''a''],
           iter_error = Some (ExternalError ''connection reset'') \<rparr>"
        0 "init_state Map.empty"] 2 3
    by simp
qed

section \<open>Status transitions\<close>

lemma transitions_download_task:
  "\<exists>rest. transitions (app_update_download_start_task L sp m net st)
            = transitions st @ (status st, UPDATING) # rest
          \<and> snd ` set rest \<subseteq> {DOWNLOADED, NONE}"
proof (cases "request_download sp m net")
  case (Inl e)
  then show ?thesis
    by (simp add: app_update_download_start_task_def download_try_def download_failed_def
        emit_def set_status_def)
next
  case (Inr p)
  obtain t resp where p: "p = (t, resp)" by (cases p)
  let ?st1 = "open_temp (set_status UPDATING st)"
  obtain rest where rest: "transitions (fst (write_chunks L t (iter_bytes resp) 0 ?st1))
      = transitions ?st1 @ rest" "snd ` set rest \<subseteq> {DOWNLOADED}"
    using transitions_write_chunks by blast
  show ?thesis
  proof (cases "iter_error resp")
    case None
    from rest(2) have "snd ` set rest \<subseteq> {DOWNLOADED, NONE}" by blast
    with None Inr p rest(1) show ?thesis
      by (simp add: app_update_download_start_task_def download_try_def open_temp_def
          set_status_def)
  next
    case (Some e)
    from rest(2) have "snd ` set rest \<subseteq> {DOWNLOADED, NONE}" by blast
    with Some Inr p rest(1) show ?thesis
      by (simp add: app_update_download_start_task_def download_try_def open_temp_def
          set_status_def download_failed_def emit_def)
  qed
qed

lemma transitions_check_task:
  "transitions (app_update_check_start_task L net st) = transitions st
   \<or> transitions (app_update_check_start_task L net st) = transitions st @ [(status st, NEW_VERSION)]"
  by (simp add: app_update_check_start_task_def check_try_def emit_def set_status_def
      split: sum.splits prod.splits)

lemma attempt_keeps [simp]:
  "transitions (attempt operation st) = transitions st"
  "extracting (attempt operation st) = extracting st"
  "terminated (attempt operation st) = terminated st"
  "events (attempt operation st) = events st"
  "logged (attempt operation st) = logged st"
  "status (attempt operation st) = status st"
  "journal (attempt operation st) = journal st"
  "opened (attempt operation st) = opened st"
  by (simp_all add: attempt_def split: sum.splits)

lemma try_remove_keeps [simp]:
  "transitions (try_remove R p st) = transitions st"
  "extracting (try_remove R p st) = extracting st"
  "terminated (try_remove R p st) = terminated st"
  "events (try_remove R p st) = events st"
  "logged (try_remove R p st) = logged st"
  "status (try_remove R p st) = status st"
  "opened (try_remove R p st) = opened st"
  "journal (try_remove R p st) = journal st @ [OS_REMOVE p]"
  by (simp_all add: try_remove_def)

lemma try_rename_keeps [simp]:
  "transitions (try_rename R sp src dst st) = transitions st"
  "extracting (try_rename R sp src dst st) = extracting st"
  "terminated (try_rename R sp src dst st) = terminated st"
  "events (try_rename R sp src dst st) = events st"
  "logged (try_rename R sp src dst st) = logged st"
  "status (try_rename R sp src dst st) = status st"
  "opened (try_rename R sp src dst st) = opened st"
  "journal (try_rename R sp src dst st) = journal st @ [OS_RENAME src dst]"
  by (simp_all add: try_rename_def)

lemma backup_current_keeps [simp]:
  "transitions (backup_current R sp st) = transitions st"
  "extracting (backup_current R sp st) = extracting st"
  "terminated (backup_current R sp st) = terminated st"
  "events (backup_current R sp st) = events st"
  "logged (backup_current R sp st) = logged st"
  "status (backup_current R sp st) = status st"
  "opened (backup_current R sp st) = opened st"
  "journal (backup_current R sp st) =
     journal st @ [OS_REMOVE ''./app.exe.bak'', OS_REMOVE ''./version.txt.bak'',
                   OS_RENAME ''./app.exe'' ''./app.exe.bak'',
                   OS_RENAME ''./version.txt'' ''./version.txt.bak'']"
  by (simp_all add: backup_current_def)

lemma restore_backup_keeps [simp]:
  "transitions (restore_backup R sp st) = transitions st"
  "extracting (restore_backup R sp st) = extracting st"
  "terminated (restore_backup R sp st) = terminated st"
  "events (restore_backup R sp st) = events st"
  "logged (restore_backup R sp st) = logged st"
  "status (restore_backup R sp st) = status st"
  "opened (restore_backup R sp st) = opened st"
  "journal (restore_backup R sp st) =
     journal st @ [OS_REMOVE ''./app.exe'', OS_REMOVE ''./version.txt'',
                   OS_RENAME ''./app.exe.bak'' ''./app.exe'',
                   OS_RENAME ''./version.txt.bak'' ''./version.txt'']"
  by (simp_all add: restore_backup_def)

lemma set_extracting_keeps [simp]:
  "transitions (set_extracting b st) = transitions st"
  "extracting (set_extracting b st) = b"
  "terminated (set_extracting b st) = terminated st"
  "events (set_extracting b st) = events st"
  "logged (set_extracting b st) = logged st"
  "status (set_extracting b st) = status st"
  "opened (set_extracting b st) = opened st"
  "files (set_extracting b st) = files st"
  "journal (set_extracting b st) = journal st @ [SET_EXTRACTING b]"
  by (simp_all add: set_extracting_def)

lemma not_macos: "fst (get_platform_info sp m) = ''macos'' \<longleftrightarrow> sp = ''darwin''"
  by (simp add: get_platform_info_def)

lemma transitions_extract_task:
  "transitions (app_update_extract_task L R sp m unpack st) = transitions st"
  by (simp add: app_update_extract_task_def handoff_def in_place_install_def Let_def emit_def)

text \<open>
  Claim C6, as stated, fails: the download task sets \<open>UPDATING\<close> whatever the status is.
  Started on the initial object, whose status is \<open>NONE\<close>, it makes the transition from
  \<open>NONE\<close> to \<open>UPDATING\<close>.
\<close>

theorem updating_from_idle_counterexample:
  "transitions (app_update_download_start_task sample_localizer ''win32'' ''AMD64''
                  (serving (Some ''3'') [''a'', ''bc''] None) (init_state Map.empty))
     = [(NONE, UPDATING), (UPDATING, DOWNLOADED)]"
  by (simp add: app_update_download_start_task_def download_try_def request_serving py_int_def
      max_str_digits_def init_state_def set_status_def open_temp_def emit_def write_temp_def
      Let_def)

text \<open>
  Claim C6, amended. The only write of \<open>UPDATING\<close> is the first statement of the download
  task, and it is unconditional: the first transition a download task adds is from the
  status it found, whichever it is, to \<open>UPDATING\<close>, and none of its later transitions
  leads to \<open>UPDATING\<close>; the check task adds no transition to \<open>UPDATING\<close>; the install
  task adds no transition at all.
\<close>

theorem updating_only_at_download_start:
  "take (Suc (length (transitions st)))
        (transitions (app_update_download_start_task L sp m net st))
     = transitions st @ [(status st, UPDATING)]
   \<and> UPDATING \<notin> snd ` set (drop (Suc (length (transitions st)))
                              (transitions (app_update_download_start_task L sp m net st)))
   \<and> UPDATING \<notin> snd ` set (drop (length (transitions st))
                              (transitions (app_update_check_start_task L net st)))
   \<and> transitions (app_update_extract_task L R sp m unpack st) = transitions st"
proof -
  obtain rest where rest: "transitions (app_update_download_start_task L sp m net st)
            = transitions st @ (status st, UPDATING) # rest"
      "snd ` set rest \<subseteq> {DOWNLOADED, NONE}"
    using transitions_download_task by blast
  have 1: "take (Suc (length (transitions st)))
        (transitions (app_update_download_start_task L sp m net st))
     = transitions st @ [(status st, UPDATING)]"
    unfolding rest(1) by simp
  have 2: "UPDATING \<notin> snd ` set (drop (Suc (length (transitions st)))
                              (transitions (app_update_download_start_task L sp m net st)))"
    unfolding rest(1) using rest(2) by auto
  have 3: "UPDATING \<notin> snd ` set (drop (length (transitions st))
                              (transitions (app_update_check_start_task L net st)))"
    using transitions_check_task [of L net st] by auto
  from 1 2 3 transitions_extract_task show ?thesis by blast
qed

section \<open>Properties of the install\<close>

lemma files_attempt:
  "files (attempt operation st) = (case operation (files st) of Inl e \<Rightarrow> files st | Inr f \<Rightarrow> f)"
  by (simp add: attempt_def split: sum.splits)

lemma files_try_remove:
  "files (try_remove R p st) = (if p \<in> R then files st else (files st)(p := None))"
  by (auto simp: try_remove_def files_attempt os_remove_def)

lemma files_try_rename:
  "files (try_rename R sp src dst st) =
     (if files st src = None \<or> (sp = ''win32'' \<and> files st dst \<noteq> None) \<or> src \<in> R \<or> dst \<in> R
      then files st
      else ((files st)(src := None))(dst := files st src))"
  by (auto simp: try_rename_def files_attempt os_rename_def)

lemma files_backup_current:
  assumes "R \<inter> {''./app.exe'', ''./app.exe.bak'', ''./version.txt'', ''./version.txt.bak''} = {}"
  shows "files (backup_current R sp st) ''./app.exe'' = None"
    "files (backup_current R sp st) ''./version.txt'' = None"
    "files (backup_current R sp st) ''./app.exe.bak'' = files st ''./app.exe''"
    "files (backup_current R sp st) ''./version.txt.bak'' = files st ''./version.txt''"
  using assms by (simp_all add: backup_current_def files_try_remove files_try_rename)

lemma files_restore_backup:
  assumes "R \<inter> {''./app.exe'', ''./app.exe.bak'', ''./version.txt'', ''./version.txt.bak''} = {}"
  shows "files (restore_backup R sp st) ''./app.exe'' = files st ''./app.exe.bak''"
    "files (restore_backup R sp st) ''./version.txt'' = files st ''./version.txt.bak''"
    "files (restore_backup R sp st) ''./app.exe.bak'' = None"
    "files (restore_backup R sp st) ''./version.txt.bak'' = None"
  using assms by (simp_all add: restore_backup_def files_try_remove files_try_rename)

lemma files_restore_backup_temp:
  "files (restore_backup R sp st) TEMP_PATH = files st TEMP_PATH"
  by (simp add: restore_backup_def files_try_remove files_try_rename TEMP_PATH_def)

lemma files_try_remove_cong:
  "files st = files st' \<Longrightarrow> files (try_remove R p st) = files (try_remove R p st')"
  by (simp add: try_remove_def files_attempt split: sum.splits)

lemma files_try_rename_cong:
  "files st = files st' \<Longrightarrow> files (try_rename R sp src dst st) = files (try_rename R sp src dst st')"
  by (simp add: try_rename_def files_attempt split: sum.splits)

lemma files_backup_current_flag:
  "files (backup_current R sp (set_extracting b st)) = files (backup_current R sp st)"
  unfolding backup_current_def
  by (intro files_try_rename_cong files_try_remove_cong) simp

text \<open>
  Claim C1, as stated, fails: the rollback renames back whatever is at the \<open>.bak\<close> paths
  when the extraction has raised, and the extraction may have written there. With the
  archive whose only member is \<open>app.exe.bak\<close> the extraction raises, and the executable
  after the rollback is the archive's member, not the executable of before the install.
  No file operation is refused here.
\<close>

theorem rollback_counterexample:
  "files (init_state installed) ''./app.exe'' = Some ''old''
   \<and> snd (overwriting_unpack (files (backup_current {} ''win32'' (init_state installed)))) \<noteq> None
   \<and> files (app_update_extract_task sample_localizer {} ''win32'' ''AMD64'' overwriting_unpack
              (init_state installed)) ''./app.exe'' = Some ''new''"
  by (simp add: app_update_extract_task_def in_place_install_def not_macos Let_def emit_def
      files_try_remove files_restore_backup files_backup_current files_backup_current_flag
      TEMP_PATH_def overwriting_unpack_def init_state_def installed_def)

text \<open>
  Claim C1, amended. On the in-place path, when the operating system refuses no
  operation on the executable, the version file and their \<open>.bak\<close> siblings (so that an
  operation on them fails only for a missing source or, on Windows, an existing target),
  and the extraction raises and has left the two \<open>.bak\<close> paths as the backup step made
  them, the rollback runs and the executable and the version file are, at the end of the
  task, exactly what they were before it (present with the same contents, or absent); no
  \<open>.bak\<close> file is left and the exception has been logged.
\<close>

theorem rollback_restores_when_backups_untouched:
  assumes "sp \<noteq> ''darwin''"
    and "R \<inter> {''./app.exe'', ''./app.exe.bak'', ''./version.txt'', ''./version.txt.bak''} = {}"
    and "snd (unpack (files (backup_current R sp st))) = Some e"
    and "fst (unpack (files (backup_current R sp st))) ''./app.exe.bak''
           = files (backup_current R sp st) ''./app.exe.bak''"
    and "fst (unpack (files (backup_current R sp st))) ''./version.txt.bak''
           = files (backup_current R sp st) ''./version.txt.bak''"
  shows "files (app_update_extract_task L R sp m unpack st) ''./app.exe'' = files st ''./app.exe''
       \<and> files (app_update_extract_task L R sp m unpack st) ''./version.txt'' = files st ''./version.txt''
       \<and> files (app_update_extract_task L R sp m unpack st) ''./app.exe.bak'' = None
       \<and> files (app_update_extract_task L R sp m unpack st) ''./version.txt.bak'' = None
       \<and> logged (app_update_extract_task L R sp m unpack st) = logged st @ [e]"
  using assms(1,3-5)
  by (simp add: app_update_extract_task_def in_place_install_def not_macos Let_def emit_def
      files_try_remove files_restore_backup [OF assms(2)] files_backup_current [OF assms(2)]
      files_backup_current_flag TEMP_PATH_def)

theorem rollback_restores_when_backups_untouched_witness:
  "files (app_update_extract_task sample_localizer {} ''win32'' ''AMD64'' failing_unpack
              (init_state installed)) ''./app.exe'' = Some ''old''
   \<and> files (app_update_extract_task sample_localizer {} ''win32'' ''AMD64'' failing_unpack
              (init_state installed)) ''./version.txt'' = Some ''v1.0.0''"
proof -
  have 1: "''win32'' \<noteq> ''darwin''" by simp
  have 0: "{} \<inter> {''./app.exe'', ''./app.exe.bak'', ''./version.txt'', ''./version.txt.bak''} = {}"
    by simp
  have 2: "snd (failing_unpack (files (backup_current {} ''win32'' (init_state installed))))
             = Some (ExternalError ''BadZipFile'')"
    by (simp add: failing_unpack_def)
  have 3: "fst (failing_unpack (files (backup_current {} ''win32'' (init_state installed)))) ''./app.exe.bak''
           = files (backup_current {} ''win32'' (init_state installed)) ''./app.exe.bak''"
    by (simp add: failing_unpack_def)
  have 4: "fst (failing_unpack (files (backup_current {} ''win32'' (init_state installed)))) ''./version.txt.bak''
           = files (backup_current {} ''win32'' (init_state installed)) ''./version.txt.bak''"
    by (simp add: failing_unpack_def)
  show ?thesis
    using rollback_restores_when_backups_untouched [where sp = "''win32''" and R = "{}"
        and unpack = failing_unpack and st = "init_state installed"
        and e = "ExternalError ''BadZipFile''" and L = sample_localizer and m = "''AMD64''"]
      0 1 2 3 4
    by (simp add: init_state_def installed_def TEMP_PATH_def)
qed

text \<open>
  Claim C9, as stated, fails. On macOS the task returns before any file operation, and
  the staged file is still there at the end. On the in-place path the removal is
  attempted and its failure ignored: when the operating system refuses it, the staged
  file is still there as well.
\<close>

theorem staged_file_kept_counterexample:
  "files (app_update_extract_task sample_localizer {} ''darwin'' ''arm64'' failing_unpack
            (init_state installed)) TEMP_PATH = Some ''archive''
   \<and> files (app_update_extract_task sample_localizer {TEMP_PATH} ''win32'' ''AMD64'' failing_unpack
            (init_state installed)) TEMP_PATH = Some ''archive''"
  by (simp add: app_update_extract_task_def in_place_install_def handoff_def not_macos Let_def
      emit_def init_state_def installed_def files_try_remove files_try_rename failing_unpack_def
      backup_current_def restore_backup_def TEMP_PATH_def)

text \<open>
  Claim C9, amended. On the in-place path, when the operating system does not refuse
  the removal of the staged file, that file is absent at the end of the task, whether
  the extraction raised or not and whatever it did to the files; when the removal is
  refused, the staged file is what the extraction left there. On the macOS path the task
  leaves all files, the staged one included, as they were.
\<close>

theorem staged_file_removed_in_place:
  "(sp \<noteq> ''darwin'' \<longrightarrow> TEMP_PATH \<notin> R \<longrightarrow>
      files (app_update_extract_task L R sp m unpack st) TEMP_PATH = None)
   \<and> (sp \<noteq> ''darwin'' \<longrightarrow> TEMP_PATH \<in> R \<longrightarrow>
      files (app_update_extract_task L R sp m unpack st) TEMP_PATH
        = fst (unpack (files (backup_current R sp st))) TEMP_PATH)
   \<and> (sp = ''darwin'' \<longrightarrow> files (app_update_extract_task L R sp m unpack st) = files st)"
  by (simp add: app_update_extract_task_def in_place_install_def handoff_def not_macos Let_def
      emit_def files_try_remove files_restore_backup_temp files_backup_current_flag)

theorem staged_file_removed_in_place_witness:
  "files (app_update_extract_task sample_localizer {} ''win32'' ''AMD64'' failing_unpack
            (init_state installed)) TEMP_PATH = None
   \<and> files (app_update_extract_task sample_localizer {''./app.exe''} ''win32'' ''AMD64''
            (\<lambda>g. (g, None)) (init_state installed)) TEMP_PATH = None
   \<and> files (app_update_extract_task sample_localizer {} ''darwin'' ''arm64'' failing_unpack
            (init_state installed)) = installed"
proof -
  have 1: "TEMP_PATH \<notin> {}" "TEMP_PATH \<notin> {''./app.exe''}" "''win32'' \<noteq> ''darwin''"
    by (simp_all add: TEMP_PATH_def)
  show ?thesis
    using staged_file_removed_in_place [of "''win32''" "{}" sample_localizer "''AMD64''"
        failing_unpack "init_state installed"]
      staged_file_removed_in_place [of "''win32''" "{''./app.exe''}" sample_localizer "''AMD64''"
        "\<lambda>g. (g, None)" "init_state installed"]
      staged_file_removed_in_place [of "''darwin''" "{}" sample_localizer "''arm64''"
        failing_unpack "init_state installed"] 1
    by (simp add: init_state_def)
qed




end
